theory Spec2Isabelle
  imports Complex_Main "HOL-Library.Word"
begin

section \<open>The block-production worker of internal/miner/worker.go\<close>

text \<open>
  The worker's loops are modelled as sequential handlers: one function per
  message a loop takes from its channel, on an explicit worker state. These are
  the two cases of \<open>workLoop\<close> that start a build, \<open>commitWork\<close> (what
  \<open>runLoop\<close> does with a request) and the body of \<open>resultLoop\<close>; \<open>taskLoop\<close>,
  which registers the pending tasks and calls the engine's \<open>Seal\<close>, is outside
  this development. Channels are queues (lists, newest last); a send appends, and
  a full buffer is not modelled. What the worker calls through an interface (the
  consensus engine, the transaction pool, the chain store, the state-transition
  function) is a field of the record \<open>externals\<close>, so every theorem holds for
  every implementation of it unless a hypothesis says otherwise.
\<close>

subsection \<open>Data\<close>

type_synonym Hash = nat
type_synonym Address = nat
type_synonym uint64 = "64 word"
type_synonym uint256 = "256 word"
type_synonym int32 = "32 word"
type_synonym Duration = int

text \<open>The zero values \<open>types.Hash{}\<close> and \<open>types.Address{}\<close>.\<close>

definition emptyHash :: Hash where
  "emptyHash = 0"

definition emptyAddress :: Address where
  "emptyAddress = 0"

text \<open>
  The errors the worker tells apart with \<open>errors.Is\<close>, and \<open>ErrOther\<close> for
  every other error value (numbered, so that two of them can differ).
\<close>

datatype error =
    ErrBlockInterruptedByNewHead
  | ErrBlockInterruptedByRecommit
  | ErrBlockInterruptedByTimeout
  | ErrGasLimitReached
  | ErrNonceTooHigh
  | ErrNonceTooLow
  | ErrCoinbaseEmpty
  | ErrMissingParent
  | ErrContextCanceled
  | ErrOther nat

text \<open>How a Go function ends: it returns its error value (\<open>None\<close> is nil), or it panics.\<close>

datatype outcome = Returned "error option" | Panicked string

datatype Transaction = Tx nat

fun TxHash :: "Transaction \<Rightarrow> Hash" where
  "TxHash (Tx n) = n"

record Log =
  LogBlockHash :: Hash
  LogData :: nat

record Receipt =
  ReceiptGasUsed :: uint64
  BlockHash :: Hash
  BlockNumber :: uint256
  TransactionIndex :: nat
  Logs :: "Log list"

record Header =
  ParentHash :: Hash
  Coinbase :: Address
  Number :: uint256
  GasLimit :: uint64
  GasUsed :: uint64
  Time :: uint64
  Difficulty :: uint256
  BaseFee :: uint256

type_synonym Reward = "Address \<times> uint256"

record Block =
  blockHeader :: Header
  blockHash :: Hash
  blockTxs :: "Transaction list"
  blockRewards :: "Reward list"

text \<open>
  Modelled from the spec: \<open>state.IntraBlockState\<close> is not among the sources. The
  spec gives it \<open>snapshot()/revertToSnapshot()\<close> for rollback; \<open>Prepare\<close> records
  the transaction being run. \<open>content\<close> is everything a revert restores (of any
  type \<open>'w\<close>); a snapshot stands for the content at the moment it was taken.
\<close>

record 'w IntraBlockState =
  content :: 'w
  thash :: Hash
  bhash :: Hash
  txIndex :: int

definition Prepare :: "Hash \<Rightarrow> Hash \<Rightarrow> int \<Rightarrow> 'w IntraBlockState \<Rightarrow> 'w IntraBlockState" where
  "Prepare th bh ti ibs = ibs\<lparr>thash := th, bhash := bh, txIndex := ti\<rparr>"

definition Snapshot :: "'w IntraBlockState \<Rightarrow> 'w" where
  "Snapshot ibs = content ibs"

definition RevertToSnapshot :: "'w \<Rightarrow> 'w IntraBlockState \<Rightarrow> 'w IntraBlockState" where
  "RevertToSnapshot snap ibs = ibs\<lparr>content := snap\<rparr>"

text \<open>
  Modelled from the spec: \<open>common.GasPool\<close> is not among the sources. It wraps one
  gas quantity (a uint64); \<open>Gas\<close> reads it and \<open>AddGas\<close> increases it. Both calls
  of \<open>AddGas\<close> in the worker add to a fresh pool, whose value is 0.
\<close>

definition AddGas :: "uint64 \<Rightarrow> uint64 \<Rightarrow> uint64" where
  "AddGas gp amount = gp + amount"

definition newGasPool :: uint64 where
  "newGasPool = 0"

text \<open>
  \<open>environment\<close>: the build context. \<open>gasPool\<close> is the value behind the pointer,
  which \<open>makeEnv\<close> always allocates.
\<close>

record environment =
  ancestors :: "Hash set"
  family :: "Hash set"
  tcount :: int
  gasPool :: uint64
  coinbase :: Address
  header :: Header
  txs :: "Transaction list"
  receipts :: "Receipt list"

text \<open>
  \<open>environment.copy\<close>: cloned sets, a copied header and gas pool, a fresh slice
  holding the same transactions, and the receipts slice itself.
\<close>

definition copy :: "environment \<Rightarrow> environment" where
  "copy env =
     \<lparr>ancestors = ancestors env, family = family env, tcount = tcount env,
      gasPool = gasPool env, coinbase = coinbase env, header = header env,
      txs = take (length (txs env)) (txs env), receipts = receipts env\<rparr>"

definition commitInterruptNone :: int32 where
  "commitInterruptNone = 0"

definition commitInterruptNewHead :: int32 where
  "commitInterruptNewHead = 1"

definition commitInterruptResubmit :: int32 where
  "commitInterruptResubmit = 2"

definition commitInterruptTimeout :: int32 where
  "commitInterruptTimeout = 3"


definition staleThreshold :: uint256 where
  "staleThreshold = 7"




record intervalAdjust =
  ratio :: real
  inc :: bool

record 'w task =
  task_receipts :: "Receipt list"
  task_state :: "'w IntraBlockState"
  task_block :: Block
  createdAt :: int
  nopay :: "Reward list"

text \<open>
  What \<open>internal.ApplyTransaction\<close> leaves behind: its result, and the values now
  behind the three pointers it was given (the gas pool, the state,
  \<open>header.GasUsed\<close>), which it may have changed even when it fails.
\<close>

record 'w applied =
  result :: "error + Receipt"
  gp_after :: uint64
  ibs_after :: "'w IntraBlockState"
  usedGas_after :: uint64

text \<open>
  What the engine's \<open>FinalizeAndAssemble\<close> gives when it succeeds: the block, the
  rewards and the unpaid rewards it returns, and the header and the state as it
  leaves them behind the pointers it was given.
\<close>

record 'w assembled =
  asm_block :: Block
  asm_rewards :: "Reward list"
  asm_unpay :: "Reward list"
  asm_header :: Header
  asm_state :: "'w IntraBlockState"

text \<open>
  Modelled from the spec: the chain store (\<open>common.IBlockChain\<close>) is not among
  the sources. It holds the blocks written to it and the current head; \<open>hasBlock\<close>
  looks a block up by hash and number. \<open>writeCalls\<close> logs every call of
  \<open>WriteBlockWithState\<close>, so that writes can be counted.
\<close>

record ChainStore =
  stored :: "Block list"
  currentBlock :: Block
  writeCalls :: "Block list"

text \<open>
  The collaborators, none of them among the sources. \<open>TxGas\<close> is \<open>params.TxGas\<close>;
  \<open>GetTransaction\<close> is what the pool answers in this build cycle; \<open>BeginRo\<close> is
  the error of opening the read-only view and \<open>StateNew\<close> the state
  \<open>commitWork\<close> builds over it and hands to \<open>fillTransactions\<close>; \<open>WriteErr\<close> and \<open>SealedBlockErr\<close> are the errors of the chain store's
  \<open>WriteBlockWithState\<close> and \<open>SealedBlock\<close>.
\<close>

record 'w externals =
  TxGas :: uint64
  ElasticityMultiplier :: uint64
  GetTransaction :: "error + Transaction list"
  ApplyTransaction ::
    "Header \<Rightarrow> Address \<Rightarrow> Transaction \<Rightarrow> uint64 \<Rightarrow> 'w IntraBlockState \<Rightarrow> 'w applied"
  HeaderHash :: "Header \<Rightarrow> Hash"
  SealHash :: "Header \<Rightarrow> Hash"
  enginePrepare :: "ChainStore \<Rightarrow> Header \<Rightarrow> error + Header"
  FinalizeAndAssemble ::
    "ChainStore \<Rightarrow> Header \<Rightarrow> 'w IntraBlockState \<Rightarrow> Transaction list \<Rightarrow> Receipt list
       \<Rightarrow> error + 'w assembled"
  CalcGasLimit :: "uint64 \<Rightarrow> uint64 \<Rightarrow> uint64"
  CalcBaseFee :: "Header \<Rightarrow> uint256"
  IsLondon :: "uint64 \<Rightarrow> bool"
  IsBeijing :: "uint64 \<Rightarrow> bool"
  BeginRo :: "error option"
  StateNew :: "'w IntraBlockState"
  Marshal :: "Transaction \<Rightarrow> error + nat list"
  NewBlockFromReceipt ::
    "Header \<Rightarrow> Transaction list \<Rightarrow> Receipt list \<Rightarrow> Reward list \<Rightarrow> Block"
  WriteErr :: "ChainStore \<Rightarrow> Block \<Rightarrow> error option"
  SealedBlockErr :: "Block \<Rightarrow> error option"
  Now :: int

subsection \<open>Assembly: fillTransactions\<close>

text \<open>\<open>signalToErr\<close>: the three signals have an error; any other value panics.\<close>

definition signalToErr :: "int32 \<Rightarrow> outcome" where
  "signalToErr signal =
     (if signal = commitInterruptNewHead then Returned (Some ErrBlockInterruptedByNewHead)
      else if signal = commitInterruptResubmit then Returned (Some ErrBlockInterruptedByRecommit)
      else if signal = commitInterruptTimeout then Returned (Some ErrBlockInterruptedByTimeout)
      else Panicked ''undefined signal'')"

text \<open>
  The closure \<open>miningCommitTx\<close>. Its parameter \<open>current\<close> and the captured \<open>env\<close>
  are the same object at its one call site, so the model has one \<open>env\<close>. It
  returns the logs or the error, with the context and the state as it leaves them.
\<close>

definition miningCommitTx ::
  "'w externals \<Rightarrow> Transaction \<Rightarrow> Address \<Rightarrow> 'w IntraBlockState \<Rightarrow> environment
     \<Rightarrow> (error + Log list) \<times> environment \<times> 'w IntraBlockState" where
  "miningCommitTx X txn cb ibs env =
     (let ibs1 = Prepare (TxHash txn) emptyHash (tcount env) ibs;
          gasSnap = gasPool env;
          snap = Snapshot ibs1;
          a = ApplyTransaction X (header env) cb txn (gasPool env) ibs1;
          env1 = env\<lparr>header := (header env)\<lparr>GasUsed := usedGas_after a\<rparr>\<rparr>
      in case result a of
           Inl err \<Rightarrow>
             (Inl err, env1\<lparr>gasPool := AddGas newGasPool gasSnap\<rparr>,
              RevertToSnapshot snap (ibs_after a))
         | Inr receipt \<Rightarrow>
             (Inr (Logs receipt),
              env1\<lparr>gasPool := gp_after a, txs := txs env @ [txn],
                   receipts := receipts env @ [receipt]\<rparr>,
              ibs_after a))"

text \<open>
  The \<open>switch\<close> after \<open>miningCommitTx\<close>: only success counts the transaction;
  every case, the default one too, goes on with the next candidate.
\<close>

definition afterCommitTx :: "error option \<Rightarrow> environment \<Rightarrow> environment" where
  "afterCommitTx err env =
     (if err = Some ErrGasLimitReached then env
      else if err = Some ErrNonceTooHigh then env
      else if err = Some ErrNonceTooLow then env
      else if err = None then env\<lparr>tcount := tcount env + 1\<rparr>
      else env)"

definition errOf :: "error + 'a \<Rightarrow> error option" where
  "errOf r = (case r of Inl e \<Rightarrow> Some e | Inr _ \<Rightarrow> None)"

text \<open>
  The body of the loop after its two checks: \<open>miningCommitTx\<close>, then the switch.
  It gives the error of the attempt and the context and state it leaves.
\<close>

definition attempt ::
  "'w externals \<Rightarrow> Transaction \<Rightarrow> environment \<Rightarrow> 'w IntraBlockState
     \<Rightarrow> error option \<times> environment \<times> 'w IntraBlockState" where
  "attempt X tx env ibs =
     (case miningCommitTx X tx (coinbase env) ibs env of
        (r, env', ibs') \<Rightarrow> (errOf r, afterCommitTx (errOf r) env', ibs'))"

text \<open>
  The interruption flag is a pointer to an atomic the trigger loop may store to at
  any time: \<open>None\<close> is the nil pointer, and \<open>Some load\<close> gives the value
  \<open>load k\<close> that \<open>interrupt.Load()\<close> returns at the loop's \<open>k\<close>-th iteration.
\<close>

definition interrupted :: "(nat \<Rightarrow> int32) option \<Rightarrow> nat \<Rightarrow> int32 option" where
  "interrupted interrupt k =
     (case interrupt of
        None \<Rightarrow> None
      | Some load \<Rightarrow> if load k \<noteq> commitInterruptNone then Some (load k) else None)"

text \<open>
  The loop \<open>for _, tx := range txs\<close> from its \<open>k\<close>-th iteration on. The
  \<open>break\<close> for lack of gas leaves the loop, after which the function returns nil.
\<close>

fun fillLoop ::
  "'w externals \<Rightarrow> (nat \<Rightarrow> int32) option \<Rightarrow> nat \<Rightarrow> Transaction list \<Rightarrow> environment
     \<Rightarrow> 'w IntraBlockState \<Rightarrow> outcome \<times> environment \<times> 'w IntraBlockState" where
  "fillLoop X interrupt k [] env ibs = (Returned None, env, ibs)"
| "fillLoop X interrupt k (tx # rest) env ibs =
     (case interrupted interrupt k of
        Some signal \<Rightarrow> (signalToErr signal, env, ibs)
      | None \<Rightarrow>
          if gasPool env < TxGas X then (Returned None, env, ibs)
          else (case attempt X tx env ibs of
                  (err, env', ibs') \<Rightarrow> fillLoop X interrupt (Suc k) rest env' ibs'))"


definition fillTransactions ::
  "'w externals \<Rightarrow> (nat \<Rightarrow> int32) option \<Rightarrow> environment \<Rightarrow> 'w IntraBlockState
     \<Rightarrow> outcome \<times> environment \<times> 'w IntraBlockState" where
  "fillTransactions X interrupt env ibs =
     (let env0 = env\<lparr>txs := []\<rparr>
      in case GetTransaction X of
           Inl err \<Rightarrow> (Returned (Some err), env0, ibs)
         | Inr candidates \<Rightarrow> fillLoop X interrupt 0 candidates env0 ibs)"


text \<open>The gas the receipts of a context account for, as a natural number.\<close>

definition receiptsGasUsed :: "Receipt list \<Rightarrow> nat" where
  "receiptsGasUsed rs = sum_list (map (\<lambda>r. unat (ReceiptGasUsed r)) rs)"

text \<open>
  The contract of the state-transition function that the gas bound rests on: a
  transaction it accepts used no more gas than the pool held, and the pool is
  left debited by exactly the receipt's gas.
\<close>

definition debitsGas :: "'w externals \<Rightarrow> bool" where
  "debitsGas X =
     (\<forall>h cb tx gp ibs rc.
        result (ApplyTransaction X h cb tx gp ibs) = Inr rc \<longrightarrow>
          ReceiptGasUsed rc \<le> gp \<and>
          gp_after (ApplyTransaction X h cb tx gp ibs) = gp - ReceiptGasUsed rc)"

subsection \<open>The worker and the chain store\<close>

datatype event =
    NewLogsEvent "Log list"
  | ChainHighestBlock Block bool
  | MinedEntireEvent Header "nat list list" "Reward list" Address

record newWorkReq =
  req_interrupt :: nat
  noempty :: bool
  req_timestamp :: int

text \<open>
  The worker's fields the handlers read and write. The channels are queues;
  \<open>events\<close> is what was sent on \<open>event.GlobalEvent\<close>; \<open>flags\<close> is the store of
  the interruption atomics, a request naming its flag by its index there;
  \<open>ctxDone\<close> says whether the worker's context is cancelled.
\<close>

record 'w worker =
  minerConf_GasCeil :: uint64
  chain :: ChainStore
  w_coinbase :: Address
  pendingTasks :: "Hash \<rightharpoonup> 'w task"
  running :: int32
  newWorkCh :: "newWorkReq list"
  taskCh :: "'w task list"
  resubmitAdjustCh :: "intervalAdjust list"
  snapshotBlock :: "Block option"
  snapshotReceipts :: "Receipt list"
  events :: "event list"
  flags :: "int32 list"
  timer :: "Duration option"
  ctxDone :: bool

definition isRunning :: "'w worker \<Rightarrow> bool" where
  "isRunning w = (running w = 1)"

definition HasBlock :: "ChainStore \<Rightarrow> Hash \<Rightarrow> uint64 \<Rightarrow> bool" where
  "HasBlock c h n =
     list_ex (\<lambda>b. blockHash b = h \<and> ucast (Number (blockHeader b)) = n) (stored c)"

definition GetBlockByHash :: "ChainStore \<Rightarrow> Hash \<Rightarrow> Block option" where
  "GetBlockByHash c h = find (\<lambda>b. blockHash b = h) (stored c)"

primrec GetBlocksFromHash :: "ChainStore \<Rightarrow> Hash \<Rightarrow> nat \<Rightarrow> Block list" where
  "GetBlocksFromHash c h 0 = []"
| "GetBlocksFromHash c h (Suc n) =
     (case GetBlockByHash c h of
        None \<Rightarrow> []
      | Some b \<Rightarrow> b # GetBlocksFromHash c (ParentHash (blockHeader b)) n)"

definition WriteBlockWithState ::
  "'w externals \<Rightarrow> ChainStore \<Rightarrow> Block \<Rightarrow> Receipt list \<Rightarrow> 'w IntraBlockState \<Rightarrow> Reward list
     \<Rightarrow> error option \<times> ChainStore" where
  "WriteBlockWithState X c blk rs st np =
     (let c1 = c\<lparr>writeCalls := writeCalls c @ [blk]\<rparr>
      in case WriteErr X c blk of
           Some err \<Rightarrow> (Some err, c1)
         | None \<Rightarrow> (None, c1\<lparr>stored := stored c1 @ [blk]\<rparr>))"

subsection \<open>Build dispatch: prepareWork, makeEnv, commit, commitWork\<close>

record generateParams =
  param_timestamp :: uint64
  param_parentHash :: Hash
  param_coinbase :: Address
  param_random :: Hash
  param_noTxs :: bool

definition makeEnv :: "ChainStore \<Rightarrow> Header \<Rightarrow> Header \<Rightarrow> Address \<Rightarrow> environment" where
  "makeEnv c parent hdr cb =
     (let recent = GetBlocksFromHash c (ParentHash parent) 3
      in \<lparr>ancestors = set (map blockHash recent), family = set (map blockHash recent),
          tcount = 0, gasPool = AddGas newGasPool (GasLimit hdr), coinbase = cb,
          header = hdr, txs = [], receipts = []\<rparr>)"

definition prepareWork ::
  "'w externals \<Rightarrow> 'w worker \<Rightarrow> generateParams \<Rightarrow> error + environment" where
  "prepareWork X w param =
     (case (if param_parentHash param \<noteq> emptyHash
            then (case GetBlockByHash (chain w) (param_parentHash param) of
                    None \<Rightarrow> Inl ErrMissingParent
                  | Some b \<Rightarrow> Inr (blockHeader b))
            else Inr (blockHeader (currentBlock (chain w)))) of
        Inl err \<Rightarrow> Inl err
      | Inr parent \<Rightarrow>
          (let timestamp =
                 (if Time parent \<ge> param_timestamp param then Time parent + 1
                  else param_timestamp param);
               hdr = \<lparr>ParentHash = HeaderHash X parent, Coinbase = param_coinbase param,
                     Number = Number parent + 1,
                     GasLimit = CalcGasLimit X (GasLimit parent) (minerConf_GasCeil w),
                     GasUsed = 0, Time = timestamp, Difficulty = 0, BaseFee = 0\<rparr>;
               hd1 =
                 (if IsLondon X (ucast (Number hdr))
                  then (let hdr' = hdr\<lparr>BaseFee := CalcBaseFee X parent\<rparr>
                        in if \<not> IsLondon X (ucast (Number parent))
                           then hdr'\<lparr>GasLimit :=
                                  CalcGasLimit X (GasLimit parent * ElasticityMultiplier X)
                                    (minerConf_GasCeil w)\<rparr>
                           else hdr')
                  else hdr)
           in case enginePrepare X (chain w) hd1 of
                Inl err \<Rightarrow> Inl err
              | Inr hd2 \<Rightarrow> Inr (makeEnv (chain w) parent hd2 (param_coinbase param))))"

text \<open>\<open>copyReceipts\<close>: a deep copy holds the same values.\<close>

definition copyReceipts :: "Receipt list \<Rightarrow> Receipt list" where
  "copyReceipts rs = map (\<lambda>l. l) rs"

definition updateSnapshot ::
  "'w externals \<Rightarrow> 'w worker \<Rightarrow> environment \<Rightarrow> Reward list \<Rightarrow> 'w worker" where
  "updateSnapshot X w env rewards =
     w\<lparr>snapshotBlock :=
         Some (NewBlockFromReceipt X (header env) (txs env) (receipts env) rewards),
       snapshotReceipts := copyReceipts (receipts env)\<rparr>"

text \<open>
  The loop of \<open>commit\<close> that marshals every transaction; the first failure panics.
\<close>

fun marshalAll :: "'w externals \<Rightarrow> Transaction list \<Rightarrow> error + nat list list" where
  "marshalAll X [] = Inr []"
| "marshalAll X (tx # rest) =
     (case Marshal X tx of
        Inl err \<Rightarrow> Inl err
      | Inr bytes \<Rightarrow>
          (case marshalAll X rest of Inl err \<Rightarrow> Inl err | Inr others \<Rightarrow> Inr (bytes # others)))"

text \<open>
  \<open>commit\<close>. The engine works on the copy of the context, so what it leaves in
  the header is seen by the rest of \<open>commit\<close> only. Of the mined-entire event
  the model keeps the header, the marshalled transactions, the rewards and the
  coinbase. The final \<open>select\<close> sends the task unless the context is cancelled.
  Log and metrics output is not modelled, here or elsewhere.
\<close>

definition commit ::
  "'w externals \<Rightarrow> 'w worker \<Rightarrow> environment \<Rightarrow> 'w IntraBlockState \<Rightarrow> outcome \<times> 'w worker" where
  "commit X w env0 ibs0 =
     (if isRunning w then
        (let env1 = copy env0
         in case FinalizeAndAssemble X (chain w) (header env1) ibs0 (txs env1)
                   (receipts env1) of
              Inl err \<Rightarrow> (Returned (Some err), w)
            | Inr a \<Rightarrow>
                (let env = env1\<lparr>header := asm_header a\<rparr>;
                     ibs = asm_state a;
                     iblock = asm_block a;
                     rewards = asm_rewards a
                 in case (if IsBeijing X (ucast (Number (header env)))
                          then (case marshalAll X (txs env) of
                                  Inl err \<Rightarrow> Inl ''marshal''
                                | Inr bs \<Rightarrow>
                                    Inr (w\<lparr>events := events w @
                                          [MinedEntireEvent (blockHeader iblock) bs rewards
                                             (coinbase env)]\<rparr>))
                          else Inr w) of
                      Inl msg \<Rightarrow> (Panicked msg, w)
                    | Inr w1 \<Rightarrow>
                        (let w2 = updateSnapshot X w1 env rewards
                         in if ctxDone w2 then (Returned (Some ErrContextCanceled), w2)
                            else (Returned None,
                                  w2\<lparr>taskCh := taskCh w2 @
                                       [\<lparr>task_receipts = receipts env, task_state = ibs,
                                         task_block = iblock, createdAt = Now X,
                                         nopay = asm_unpay a\<rparr>]\<rparr>))))
      else (Returned None, w))"

text \<open>
  The \<open>switch\<close> of \<open>commitWork\<close> on the error of \<open>fillTransactions\<close>: the two
  cases that send feedback. The ratio is computed in the reals here, not in float64.
\<close>

definition feedback :: "'w worker \<Rightarrow> error option \<Rightarrow> environment \<Rightarrow> 'w worker" where
  "feedback w err current =
     (if err = None then
        w\<lparr>resubmitAdjustCh := resubmitAdjustCh w @ [\<lparr>ratio = 0, inc = False\<rparr>]\<rparr>
      else if err = Some ErrBlockInterruptedByRecommit then
        (let gaslimit = GasLimit (header current);
             r = real (unat (gaslimit - gasPool current)) / real (unat gaslimit)
         in w\<lparr>resubmitAdjustCh := resubmitAdjustCh w @
                [\<lparr>ratio = (if r < 0.1 then 0.1 else r), inc = True\<rparr>]\<rparr>)
      else w)"

text \<open>
  The parameters \<open>commitWork\<close> prepares its work with: the timestamp, converted
  from int64 to uint64, and the coinbase; the other fields have their zero values.
\<close>

definition workParams :: "'w worker \<Rightarrow> int \<Rightarrow> generateParams" where
  "workParams w timestamp =
     \<lparr>param_timestamp = word_of_int timestamp, param_parentHash = emptyHash,
      param_coinbase = w_coinbase w, param_random = emptyHash, param_noTxs = False\<rparr>"

definition commitWork ::
  "'w externals \<Rightarrow> 'w worker \<Rightarrow> (nat \<Rightarrow> int32) option \<Rightarrow> bool \<Rightarrow> int \<Rightarrow> outcome \<times> 'w worker" where
  "commitWork X w interrupt ne timestamp =
     (if isRunning w \<and> w_coinbase w = emptyAddress then (Returned (Some ErrCoinbaseEmpty), w)
      else
        (case prepareWork X w (workParams w timestamp) of
           Inl err \<Rightarrow> (Returned (Some err), w)
         | Inr current \<Rightarrow>
             (case BeginRo X of
                Some err \<Rightarrow> (Returned (Some err), w)
              | None \<Rightarrow>
                  (case fillTransactions X interrupt current (StateNew X) of
                     (Panicked msg, env, ibs) \<Rightarrow> (Panicked msg, w)
                   | (Returned err, env, ibs) \<Rightarrow> commit X (feedback w err env) env ibs))))"

subsection \<open>Result handling: resultLoop\<close>

text \<open>The copy of a task's receipts, stamped with the sealed block's hash and number.\<close>

definition stampReceipt :: "Hash \<Rightarrow> uint256 \<Rightarrow> nat \<Rightarrow> Receipt \<Rightarrow> Receipt" where
  "stampReceipt hash number i taskReceipt =
     taskReceipt\<lparr>BlockHash := hash, BlockNumber := number, TransactionIndex := i,
       Logs := map (\<lambda>taskLog. taskLog\<lparr>LogBlockHash := hash\<rparr>) (Logs taskReceipt)\<rparr>"

definition stampReceipts :: "Hash \<Rightarrow> uint256 \<Rightarrow> Receipt list \<Rightarrow> Receipt list" where
  "stampReceipts hash number rs =
     map (\<lambda>(i, r). stampReceipt hash number i r) (zip [0..<length rs] rs)"

text \<open>
  One delivery on \<open>resultCh\<close>: \<open>None\<close> is the nil block. Every \<open>continue\<close> ends
  the handling with the worker as it is at that point.
\<close>

definition resultLoop :: "'w externals \<Rightarrow> 'w worker \<Rightarrow> Block option \<Rightarrow> 'w worker" where
  "resultLoop X w delivery =
     (case delivery of
        None \<Rightarrow> w
      | Some blk \<Rightarrow>
          if HasBlock (chain w) (blockHash blk) (ucast (Number (blockHeader blk))) then w
          else
            (let sealhash = SealHash X (blockHeader blk);
                 hash = blockHash blk
             in case pendingTasks w sealhash of
                  None \<Rightarrow> w
                | Some task \<Rightarrow>
                    (let rs = stampReceipts hash (Number (blockHeader blk)) (task_receipts task);
                         logs = concat (map Logs rs)
                     in case WriteBlockWithState X (chain w) blk rs (task_state task)
                               (nopay task) of
                          (Some err, c) \<Rightarrow> w\<lparr>chain := c\<rparr>
                        | (None, c) \<Rightarrow>
                            (let w1 = w\<lparr>chain := c\<rparr>;
                                 w2 = (if length logs > 0
                                       then w1\<lparr>events := events w1 @ [NewLogsEvent logs]\<rparr>
                                       else w1)
                             in case SealedBlockErr X blk of
                                  Some err \<Rightarrow> w2
                                | None \<Rightarrow>
                                    w2\<lparr>events := events w2 @
                                         [ChainHighestBlock blk True]\<rparr>))))"

subsection \<open>The trigger loop: workLoop\<close>
















text \<open>
  The closure \<open>clearPending\<close>. Each entry is kept or deleted on its own, so the
  order in which the map is ranged over does not matter. \<open>Cmp\<close> compares two
  uint256, \<open>Add\<close> adds them modulo \<open>2^256\<close>; \<open>number.Cmp(x) < 1\<close> is
  \<open>number \<le> x\<close>.
\<close>

definition clearPending :: "uint256 \<Rightarrow> (Hash \<rightharpoonup> 'w task) \<Rightarrow> (Hash \<rightharpoonup> 'w task)" where
  "clearPending number tasks =
     (\<lambda>h. case tasks h of
             None \<Rightarrow> None
           | Some t \<Rightarrow>
               if number \<le> Number (blockHeader (task_block t)) + staleThreshold then None
               else Some t)"

text \<open>The loop's own variables.\<close>

record workLoopState =
  wl_interrupt :: "nat option"
  minRecommit :: Duration
  recommit :: Duration
  wl_timestamp :: int

text \<open>
  The closure \<open>commit\<close> of \<open>workLoop\<close>: it stores the signal in the flag of the
  build before, allocates a new flag, sends the request and arms the timer.
\<close>

definition workLoop_commit ::
  "'w worker \<Rightarrow> workLoopState \<Rightarrow> bool \<Rightarrow> int32 \<Rightarrow> 'w worker \<times> workLoopState" where
  "workLoop_commit w l ne s =
     (let fl = (case wl_interrupt l of None \<Rightarrow> flags w | Some a \<Rightarrow> (flags w)[a := s]);
          a' = length fl;
          w1 = w\<lparr>flags := fl @ [0]\<rparr>;
          l1 = l\<lparr>wl_interrupt := Some a'\<rparr>
      in if ctxDone w1 then (w1, l1)
         else (w1\<lparr>newWorkCh := newWorkCh w1 @
                     [\<lparr>req_interrupt = a', noempty = ne, req_timestamp = wl_timestamp l1\<rparr>],
                   timer := Some (recommit l1)\<rparr>, l1))"

text \<open>
  The two cases of the \<open>select\<close> that start a build: a start signal, which reads
  the number of the chain's current block, and a new canonical head. \<open>now\<close> is
  \<open>time.Now().Unix()\<close>.
\<close>

definition onNewHead ::
  "'w worker \<Rightarrow> workLoopState \<Rightarrow> uint256 \<Rightarrow> int \<Rightarrow> 'w worker \<times> workLoopState" where
  "onNewHead w l number now =
     workLoop_commit (w\<lparr>pendingTasks := clearPending number (pendingTasks w)\<rparr>)
       (l\<lparr>wl_timestamp := now\<rparr>) False commitInterruptNewHead"

definition onStart :: "'w worker \<Rightarrow> workLoopState \<Rightarrow> int \<Rightarrow> 'w worker \<times> workLoopState" where
  "onStart w l now = onNewHead w l (Number (blockHeader (currentBlock (chain w)))) now"

definition onNewBlock ::
  "'w worker \<Rightarrow> workLoopState \<Rightarrow> Block \<Rightarrow> int \<Rightarrow> 'w worker \<times> workLoopState" where
  "onNewBlock w l blk now = onNewHead w l (Number (blockHeader blk)) now"

subsection \<open>A concrete worker, for evaluating the model\<close>

text \<open>
  A state-transition function on a state that is one number: transaction 2 fails
  with nonce-too-low after it has taken gas and changed the state; every other
  transaction uses 21000 gas when the pool holds that much.
\<close>

definition exampleReceipt :: "Transaction \<Rightarrow> Receipt" where
  "exampleReceipt tx =
     \<lparr>ReceiptGasUsed = 21000, BlockHash = 0, BlockNumber = 0, TransactionIndex = 0,
      Logs = [\<lparr>LogBlockHash = 0, LogData = TxHash tx\<rparr>]\<rparr>"

definition exampleApply ::
  "Header \<Rightarrow> Address \<Rightarrow> Transaction \<Rightarrow> uint64 \<Rightarrow> nat IntraBlockState \<Rightarrow> nat applied" where
  "exampleApply h cb tx gp ibs =
     (if tx = Tx 2 then
        \<lparr>result = Inl ErrNonceTooLow, gp_after = gp - 500,
         ibs_after = ibs\<lparr>content := content ibs + 1\<rparr>, usedGas_after = GasUsed h\<rparr>
      else if gp < 21000 then
        \<lparr>result = Inl ErrGasLimitReached, gp_after = gp, ibs_after = ibs,
         usedGas_after = GasUsed h\<rparr>
      else
        \<lparr>result = Inr (exampleReceipt tx),
         gp_after = gp - 21000,
         ibs_after = ibs\<lparr>content := content ibs + 10 * TxHash tx\<rparr>,
         usedGas_after = GasUsed h + 21000\<rparr>)"

definition exampleBlock :: "Header \<Rightarrow> Transaction list \<Rightarrow> Reward list \<Rightarrow> Block" where
  "exampleBlock h ts rw =
     \<lparr>blockHeader = h, blockHash = 1000 + unat (Number h), blockTxs = ts, blockRewards = rw\<rparr>"

definition exampleX :: "nat externals" where
  "exampleX =
     \<lparr>TxGas = 21000, ElasticityMultiplier = 2,
      GetTransaction = Inr [Tx 1, Tx 2, Tx 3],
      ApplyTransaction = exampleApply,
      HeaderHash = (\<lambda>h. 1000 + unat (Number h)),
      SealHash = (\<lambda>h. 2000 + unat (Number h)),
      enginePrepare = (\<lambda>c h. Inr h),
      FinalizeAndAssemble =
        (\<lambda>c h ibs ts rs.
           Inr \<lparr>asm_block = exampleBlock h ts [], asm_rewards = [], asm_unpay = [],
                asm_header = h, asm_state = ibs\<rparr>),
      CalcGasLimit = (\<lambda>parentGasLimit ceil. ceil),
      CalcBaseFee = (\<lambda>h. 0),
      IsLondon = (\<lambda>n. False),
      IsBeijing = (\<lambda>n. False),
      BeginRo = None,
      StateNew = \<lparr>content = 0, thash = 0, bhash = 0, txIndex = 0\<rparr>,
      Marshal = (\<lambda>tx. Inr [TxHash tx]),
      NewBlockFromReceipt = (\<lambda>h ts rs rw. exampleBlock h ts rw),
      WriteErr = (\<lambda>c b. None),
      SealedBlockErr = (\<lambda>b. None),
      Now = 0\<rparr>"

definition exampleHeader :: "nat \<Rightarrow> Header" where
  "exampleHeader n =
     \<lparr>ParentHash = 999 + n, Coinbase = 7, Number = of_nat n, GasLimit = 100000,
      GasUsed = 0, Time = of_nat n, Difficulty = 0, BaseFee = 0\<rparr>"

definition exampleTask :: "nat \<Rightarrow> nat task" where
  "exampleTask n =
     \<lparr>task_receipts = [], task_state = StateNew exampleX,
      task_block = exampleBlock (exampleHeader n) [] [], createdAt = 0, nopay = []\<rparr>"

definition exampleWorker :: "nat worker" where
  "exampleWorker =
     \<lparr>minerConf_GasCeil = 100000,
      chain = \<lparr>stored = [exampleBlock (exampleHeader 0) [] []],
               currentBlock = exampleBlock (exampleHeader 0) [] [], writeCalls = []\<rparr>,
      w_coinbase = 7, pendingTasks = Map.empty, running = 1,
      newWorkCh = [], taskCh = [], resubmitAdjustCh = [], snapshotBlock = None,
      snapshotReceipts = [], events = [], flags = [], timer = None, ctxDone = False\<rparr>"

text \<open>The flag as a build reads it once the trigger loop has stored the new-head signal.\<close>

definition newHeadArrived :: "(nat \<Rightarrow> int32) option" where
  "newHeadArrived = Some (\<lambda>k. commitInterruptNewHead)"

definition exampleEnv :: environment where
  "exampleEnv = makeEnv (chain exampleWorker) (exampleHeader 0) (exampleHeader 1) 7"

definition exampleLoop :: workLoopState where
  "exampleLoop =
     \<lparr>wl_interrupt = None, minRecommit = 1000000000, recommit = 1000000000,
      wl_timestamp = 0\<rparr>"

text \<open>
  The worker with two pending tasks: one for block 101, under seal hash 2101, and
  one for block 90, under seal hash 2090.
\<close>

definition examplePending :: "nat worker" where
  "examplePending =
     exampleWorker\<lparr>pendingTasks := [2101 \<mapsto> exampleTask 101, 2090 \<mapsto> exampleTask 90]\<rparr>"

text \<open>The same collaborators with a transaction pool that answers with an error.\<close>

definition poolFails :: "nat externals" where
  "poolFails = exampleX\<lparr>GetTransaction := Inl (ErrOther 1)\<rparr>"

text \<open>
  The example context after transaction 1 is accepted and after transaction 3 is,
  and the states after each of the three attempts.
\<close>

definition exampleEnv1 :: environment where
  "exampleEnv1 =
     exampleEnv\<lparr>tcount := 1, gasPool := 79000,
       header := (exampleHeader 1)\<lparr>GasUsed := 21000\<rparr>,
       txs := [Tx 1], receipts := [exampleReceipt (Tx 1)]\<rparr>"

definition exampleEnv3 :: environment where
  "exampleEnv3 =
     exampleEnv\<lparr>tcount := 2, gasPool := 58000,
       header := (exampleHeader 1)\<lparr>GasUsed := 42000\<rparr>,
       txs := [Tx 1, Tx 3], receipts := [exampleReceipt (Tx 1), exampleReceipt (Tx 3)]\<rparr>"

definition exampleState1 :: "nat IntraBlockState" where
  "exampleState1 = \<lparr>content = 10, thash = 1, bhash = 0, txIndex = 0\<rparr>"

definition exampleState2 :: "nat IntraBlockState" where
  "exampleState2 = \<lparr>content = 10, thash = 2, bhash = 0, txIndex = 1\<rparr>"

definition exampleState3 :: "nat IntraBlockState" where
  "exampleState3 = \<lparr>content = 40, thash = 3, bhash = 0, txIndex = 1\<rparr>"

section \<open>Properties\<close>

subsection \<open>One attempt and the loop\<close>

text \<open>
  An attempt either fails, and then leaves the pool and the state's content as
  they were, or is accepted, and then appends one transaction and one receipt.
\<close>

lemma attempt_cases:
  obtains (failed) err a where
      "a = ApplyTransaction X (header env) (coinbase env) tx (gasPool env)
             (Prepare (TxHash tx) emptyHash (tcount env) ibs)"
      "result a = Inl err"
      "attempt X tx env ibs =
         (Some err,
          env\<lparr>header := (header env)\<lparr>GasUsed := usedGas_after a\<rparr>, gasPool := gasPool env\<rparr>,
          (ibs_after a)\<lparr>content := content ibs\<rparr>)"
  | (accepted) rc a where
      "a = ApplyTransaction X (header env) (coinbase env) tx (gasPool env)
             (Prepare (TxHash tx) emptyHash (tcount env) ibs)"
      "result a = Inr rc"
      "attempt X tx env ibs =
         (None,
          env\<lparr>header := (header env)\<lparr>GasUsed := usedGas_after a\<rparr>, gasPool := gp_after a,
              txs := txs env @ [tx], receipts := receipts env @ [rc],
              tcount := tcount env + 1\<rparr>,
          ibs_after a)"
proof (cases "result (ApplyTransaction X (header env) (coinbase env) tx (gasPool env)
             (Prepare (TxHash tx) emptyHash (tcount env) ibs))")
  case (Inl err)
  then have "attempt X tx env ibs =
         (Some err,
          env\<lparr>header := (header env)\<lparr>GasUsed := usedGas_after (ApplyTransaction X (header env) (coinbase env) tx (gasPool env)
             (Prepare (TxHash tx) emptyHash (tcount env) ibs))\<rparr>, gasPool := gasPool env\<rparr>,
          (ibs_after (ApplyTransaction X (header env) (coinbase env) tx (gasPool env)
             (Prepare (TxHash tx) emptyHash (tcount env) ibs)))\<lparr>content := content ibs\<rparr>)"
    by (cases err)
       (simp_all add: attempt_def miningCommitTx_def Let_def AddGas_def newGasPool_def
        RevertToSnapshot_def Snapshot_def Prepare_def afterCommitTx_def errOf_def)
  with Inl show thesis by (rule_tac failed) auto
next
  case (Inr rc)
  then have "attempt X tx env ibs =
         (None,
          env\<lparr>header := (header env)\<lparr>GasUsed := usedGas_after (ApplyTransaction X (header env) (coinbase env) tx (gasPool env)
             (Prepare (TxHash tx) emptyHash (tcount env) ibs))\<rparr>, gasPool := gp_after (ApplyTransaction X (header env) (coinbase env) tx (gasPool env)
             (Prepare (TxHash tx) emptyHash (tcount env) ibs)),
              txs := txs env @ [tx], receipts := receipts env @ [rc],
              tcount := tcount env + 1\<rparr>,
          ibs_after (ApplyTransaction X (header env) (coinbase env) tx (gasPool env)
             (Prepare (TxHash tx) emptyHash (tcount env) ibs)))"
    by (simp add: attempt_def miningCommitTx_def Let_def afterCommitTx_def errOf_def)
  with Inr show thesis by (rule_tac accepted) auto
qed

lemma attempt_lengths:
  assumes "attempt X tx env ibs = (err, env', ibs')"
  shows "length (txs env') + length (receipts env) = length (receipts env') + length (txs env)"
  using assms by (cases rule: attempt_cases [of X env tx ibs]) auto

lemma receiptsGasUsed_snoc:
  "receiptsGasUsed (rs @ [rc]) = receiptsGasUsed rs + unat (ReceiptGasUsed rc)"
  by (simp add: receiptsGasUsed_def)

lemma attempt_gas:
  assumes "debitsGas X" and "attempt X tx env ibs = (err, env', ibs')"
  shows "receiptsGasUsed (receipts env') + unat (gasPool env')
           = receiptsGasUsed (receipts env) + unat (gasPool env)
         \<and> GasLimit (header env') = GasLimit (header env)"
proof (cases rule: attempt_cases [of X env tx ibs])
  case (failed e a)
  with assms(2) show ?thesis by auto
next
  case (accepted rc a)
  from assms(1) accepted(1,2)
  have le: "ReceiptGasUsed rc \<le> gasPool env"
    and eq: "gp_after a = gasPool env - ReceiptGasUsed rc"
    unfolding debitsGas_def by blast+
  from le have "unat (gasPool env - ReceiptGasUsed rc) = unat (gasPool env) - unat (ReceiptGasUsed rc)"
    by (simp add: unat_sub)
  moreover from le have "unat (ReceiptGasUsed rc) \<le> unat (gasPool env)"
    by (simp add: word_le_nat_alt)
  ultimately show ?thesis
    using assms(2) accepted(3) eq by (auto simp: receiptsGasUsed_snoc)
qed

lemma fillLoop_lengths:
  assumes "fillLoop X interrupt k cands env ibs = (out, env', ibs')"
  shows "length (txs env') + length (receipts env) = length (receipts env') + length (txs env)"
  using assms
proof (induction cands arbitrary: k env ibs)
  case Nil
  then show ?case by simp
next
  case (Cons tx rest)
  show ?case
  proof (cases "interrupted interrupt k")
    case (Some s)
    with Cons.prems show ?thesis by simp
  next
    case None
    show ?thesis
    proof (cases "gasPool env < TxGas X")
      case True
      with None Cons.prems show ?thesis by simp
    next
      case False
      obtain e env1 ibs1 where a: "attempt X tx env ibs = (e, env1, ibs1)"
        by (cases "attempt X tx env ibs") auto
      with None False Cons.prems
      have "fillLoop X interrupt (Suc k) rest env1 ibs1 = (out, env', ibs')" by simp
      from Cons.IH [OF this] attempt_lengths [OF a] show ?thesis by simp
    qed
  qed
qed

lemma fillLoop_gas:
  assumes "debitsGas X" and "fillLoop X interrupt k cands env ibs = (out, env', ibs')"
  shows "receiptsGasUsed (receipts env') + unat (gasPool env')
           = receiptsGasUsed (receipts env) + unat (gasPool env)
         \<and> GasLimit (header env') = GasLimit (header env)"
  using assms(2)
proof (induction cands arbitrary: k env ibs)
  case Nil
  then show ?case by simp
next
  case (Cons tx rest)
  show ?case
  proof (cases "interrupted interrupt k")
    case (Some s)
    with Cons.prems show ?thesis by simp
  next
    case None
    show ?thesis
    proof (cases "gasPool env < TxGas X")
      case True
      with None Cons.prems show ?thesis by simp
    next
      case False
      obtain e env1 ibs1 where a: "attempt X tx env ibs = (e, env1, ibs1)"
        by (cases "attempt X tx env ibs") auto
      with None False Cons.prems
      have "fillLoop X interrupt (Suc k) rest env1 ibs1 = (out, env', ibs')" by simp
      from Cons.IH [OF this] attempt_gas [OF assms(1) a] show ?thesis by simp
    qed
  qed
qed

lemma fillLoop_silent:
  assumes "\<And>j. interrupted interrupt j = None"
  shows "fst (fillLoop X interrupt k cands env ibs) = Returned None"
proof (induction cands arbitrary: k env ibs)
  case Nil
  then show ?case by simp
next
  case (Cons tx rest)
  obtain e env1 ibs1 where a: "attempt X tx env ibs = (e, env1, ibs1)"
    by (cases "attempt X tx env ibs") auto
  with Cons assms show ?case by simp
qed



lemma exampleEnv_eval:
  "exampleEnv =
     \<lparr>ancestors = {}, family = {}, tcount = 0, gasPool = 100000, coinbase = 7,
      header = exampleHeader 1, txs = [], receipts = []\<rparr>"
  by (simp add: exampleEnv_def makeEnv_def exampleWorker_def exampleHeader_def
      GetBlockByHash_def exampleBlock_def AddGas_def newGasPool_def numeral_3_eq_3)

lemma fillLoop_skip:
  assumes "interrupted interrupt k = None" and "\<not> gasPool env < TxGas X"
    and "attempt X tx env ibs = (Some err, env', ibs')"
  shows "fillLoop X interrupt k (tx # rest) env ibs = fillLoop X interrupt (Suc k) rest env' ibs'
         \<and> txs env' = txs env \<and> receipts env' = receipts env \<and> tcount env' = tcount env
         \<and> gasPool env' = gasPool env"
  using assms by (cases rule: attempt_cases [of X env tx ibs]) auto

lemma fillLoop_accept:
  assumes "interrupted interrupt k = None" and "\<not> gasPool env < TxGas X"
    and "attempt X tx env ibs = (None, env', ibs')"
  shows "fillLoop X interrupt k (tx # rest) env ibs = fillLoop X interrupt (Suc k) rest env' ibs'
         \<and> txs env' = txs env @ [tx]"
  using assms by (cases rule: attempt_cases [of X env tx ibs]) auto

lemma scenario_three:
  assumes silent: "\<forall>j. interrupted interrupt j = None"
    and pool: "GetTransaction X = Inr [t1, t2, t3]"
    and g0: "\<not> gasPool env < TxGas X"
    and a1: "attempt X t1 (env\<lparr>txs := []\<rparr>) ibs = (None, env1, ibs1)"
    and g1: "\<not> gasPool env1 < TxGas X"
    and a2: "attempt X t2 env1 ibs1 = (Some ErrNonceTooLow, env2, ibs2)"
    and a3: "attempt X t3 env2 ibs2 = (None, env3, ibs3)"
  shows "fillTransactions X interrupt env ibs = (Returned None, env3, ibs3) \<and> txs env3 = [t1, t3]"
proof -
  from silent have s: "\<And>j. interrupted interrupt j = None" by simp
  from g0 have g0': "\<not> gasPool (env\<lparr>txs := []\<rparr>) < TxGas X" by simp
  note st1 = fillLoop_accept [OF s g0' a1]
  note st2 = fillLoop_skip [OF s g1 a2]
  from st2 g1 have g2: "\<not> gasPool env2 < TxGas X" by simp
  note st3 = fillLoop_accept [OF s g2 a3]
  from st1 st2 st3 have "fillLoop X interrupt 0 [t1, t2, t3] (env\<lparr>txs := []\<rparr>) ibs
      = (Returned None, env3, ibs3)"
    by (simp add: numeral_2_eq_2 del: fillLoop.simps(2)) 
  moreover from st1 st2 st3 have "txs env3 = [t1, t3]" by simp
  ultimately show ?thesis using pool by (simp add: fillTransactions_def)
qed

lemma debitsGas_exampleX: "debitsGas exampleX"
  by (auto simp: debitsGas_def exampleX_def exampleApply_def exampleReceipt_def
      split: if_splits)

lemma example_attempt_1:
  "attempt exampleX (Tx 1) (exampleEnv\<lparr>txs := []\<rparr>) (StateNew exampleX)
     = (None, exampleEnv1, exampleState1)"
  by (simp add: attempt_def miningCommitTx_def exampleX_def exampleApply_def exampleEnv_eval
      Let_def Prepare_def Snapshot_def RevertToSnapshot_def AddGas_def newGasPool_def
      afterCommitTx_def errOf_def exampleHeader_def emptyHash_def exampleReceipt_def
      exampleEnv1_def exampleState1_def)

lemma example_attempt_2:
  "attempt exampleX (Tx 2) exampleEnv1 exampleState1
     = (Some ErrNonceTooLow, exampleEnv1, exampleState2)"
  by (simp add: attempt_def miningCommitTx_def exampleX_def exampleApply_def exampleEnv_eval
      Let_def Prepare_def Snapshot_def RevertToSnapshot_def AddGas_def newGasPool_def
      afterCommitTx_def errOf_def exampleHeader_def emptyHash_def exampleReceipt_def
      exampleEnv1_def exampleState1_def exampleState2_def)

lemma example_attempt_3:
  "attempt exampleX (Tx 3) exampleEnv1 exampleState2 = (None, exampleEnv3, exampleState3)"
  by (simp add: attempt_def miningCommitTx_def exampleX_def exampleApply_def exampleEnv_eval
      Let_def Prepare_def Snapshot_def RevertToSnapshot_def AddGas_def newGasPool_def
      afterCommitTx_def errOf_def exampleHeader_def emptyHash_def exampleReceipt_def
      exampleEnv1_def exampleEnv3_def exampleState2_def exampleState3_def)

subsection \<open>The interval controller\<close>
































subsection \<open>The result handler\<close>

lemma HasBlock_after_write:
  "HasBlock (c\<lparr>writeCalls := wc, stored := stored c @ [blk]\<rparr>) (blockHash blk)
     (ucast (Number (blockHeader blk)))"
  by (simp add: HasBlock_def)

lemma resultLoop_first_delivery:
  assumes "\<not> HasBlock (chain w) (blockHash blk) (ucast (Number (blockHeader blk)))"
    and "pendingTasks w (SealHash X (blockHeader blk)) = Some t"
    and "WriteErr X (chain w) blk = None"
  shows "chain (resultLoop X w (Some blk))
           = (chain w)\<lparr>writeCalls := writeCalls (chain w) @ [blk],
                        stored := stored (chain w) @ [blk]\<rparr>"
  using assms
  by (simp add: resultLoop_def WriteBlockWithState_def Let_def split: option.splits)

subsection \<open>The build cycle\<close>

lemma commit_keeps_feedback:
  "resubmitAdjustCh (snd (commit X w env ibs)) = resubmitAdjustCh w"
  by (simp add: commit_def updateSnapshot_def Let_def split: sum.splits prod.splits)

lemma feedback_channel:
  "resubmitAdjustCh (feedback w err env) =
     (if err = None then resubmitAdjustCh w @ [\<lparr>ratio = 0, inc = False\<rparr>]
      else if err = Some ErrBlockInterruptedByRecommit
        then resubmitAdjustCh w @
          [\<lparr>ratio = (if real (unat (GasLimit (header env) - gasPool env))
                           / real (unat (GasLimit (header env))) < 0.1 then 0.1
                       else real (unat (GasLimit (header env) - gasPool env))
                           / real (unat (GasLimit (header env)))),
            inc = True\<rparr>]
      else resubmitAdjustCh w)"
  by (simp add: feedback_def Let_def)

lemma commitWork_filled:
  assumes "\<not> (isRunning w \<and> w_coinbase w = emptyAddress)"
    and "prepareWork X w (workParams w ts) = Inr current"
    and "BeginRo X = None"
    and "fillTransactions X interrupt current (StateNew X) = (Returned err, env, ibs)"
  shows "commitWork X w interrupt ne ts = commit X (feedback w err env) env ibs"
  using assms by (auto simp: commitWork_def)


lemma example_prepareWork:
  "prepareWork exampleX exampleWorker (workParams exampleWorker 0) = Inr exampleEnv"
  by (simp add: prepareWork_def workParams_def exampleX_def exampleWorker_def exampleEnv_def
      exampleBlock_def exampleHeader_def emptyHash_def Let_def)

lemma example_fill_new_head:
  "fillTransactions exampleX newHeadArrived exampleEnv (StateNew exampleX)
     = (Returned (Some ErrBlockInterruptedByNewHead), exampleEnv, StateNew exampleX)"
  by (simp add: fillTransactions_def exampleX_def newHeadArrived_def interrupted_def
      signalToErr_def commitInterruptNewHead_def commitInterruptNone_def exampleEnv_eval)


subsection \<open>Claims\<close>

text \<open>
  C2. When the application of a candidate transaction fails, with whatever error,
  \<open>miningCommitTx\<close> returns that error, the gas pool holds what it held before
  the attempt, the state's content is the snapshot taken before the attempt (which
  is the content the state had), neither a transaction nor a receipt is appended,
  and the loop's switch does not count the transaction.
\<close>

theorem C2_failed_application_rolls_back:
  assumes "result (ApplyTransaction X (header env) cb txn (gasPool env)
             (Prepare (TxHash txn) emptyHash (tcount env) ibs)) = Inl err"
  shows "case miningCommitTx X txn cb ibs env of
           (r, env', ibs') \<Rightarrow>
             r = Inl err \<and> gasPool env' = gasPool env \<and>
             content ibs' = Snapshot (Prepare (TxHash txn) emptyHash (tcount env) ibs) \<and>
             content ibs' = content ibs \<and>
             txs env' = txs env \<and> receipts env' = receipts env \<and>
             tcount (afterCommitTx (errOf r) env') = tcount env"
  using assms
  by (simp add: miningCommitTx_def Let_def AddGas_def newGasPool_def RevertToSnapshot_def
      Snapshot_def Prepare_def afterCommitTx_def errOf_def)

theorem C2_witness:
  "fst (miningCommitTx exampleX (Tx 2) 7 (StateNew exampleX) exampleEnv) = Inl ErrNonceTooLow \<and>
   gasPool (fst (snd (miningCommitTx exampleX (Tx 2) 7 (StateNew exampleX) exampleEnv))) = 100000 \<and>
   content (snd (snd (miningCommitTx exampleX (Tx 2) 7 (StateNew exampleX) exampleEnv))) = 0 \<and>
   gp_after (ApplyTransaction exampleX (header exampleEnv) 7 (Tx 2) (gasPool exampleEnv)
      (Prepare (TxHash (Tx 2)) emptyHash (tcount exampleEnv) (StateNew exampleX))) = 99500"
proof -
  have h: "result (ApplyTransaction exampleX (header exampleEnv) 7 (Tx 2) (gasPool exampleEnv)
             (Prepare (TxHash (Tx 2)) emptyHash (tcount exampleEnv) (StateNew exampleX)))
           = Inl ErrNonceTooLow"
    by (simp add: exampleX_def exampleApply_def)
  have g: "gasPool exampleEnv = 100000" "content (StateNew exampleX) = 0"
    by (simp_all add: exampleEnv_eval exampleX_def)
  have a: "gp_after (ApplyTransaction exampleX (header exampleEnv) 7 (Tx 2) (gasPool exampleEnv)
      (Prepare (TxHash (Tx 2)) emptyHash (tcount exampleEnv) (StateNew exampleX))) = 99500"
    by (simp add: exampleX_def exampleApply_def exampleEnv_eval)
  from C2_failed_application_rolls_back [OF h] g a show ?thesis
    by (auto split: prod.splits)
qed

text \<open>
  C8. When the loop reads a signal other than none before a candidate, it returns
  at once, with the context and the state untouched, what \<open>signalToErr\<close> gives
  for the signal: the error of the new-head, recommit or timeout signal, and a
  panic for every other value.
\<close>

theorem C8_interruption_aborts_with_its_error:
  assumes "interrupt = Some load" and "load k \<noteq> commitInterruptNone"
  shows "fillLoop X interrupt k (tx # rest) env ibs = (signalToErr (load k), env, ibs) \<and>
         signalToErr (load k) =
           (if load k = commitInterruptNewHead then Returned (Some ErrBlockInterruptedByNewHead)
            else if load k = commitInterruptResubmit
              then Returned (Some ErrBlockInterruptedByRecommit)
            else if load k = commitInterruptTimeout
              then Returned (Some ErrBlockInterruptedByTimeout)
            else Panicked ''undefined signal'')"
  using assms by (simp add: interrupted_def signalToErr_def)

theorem C8_witness:
  "fillLoop exampleX (Some (\<lambda>k. 3)) 0 [Tx 1] exampleEnv (StateNew exampleX)
     = (Returned (Some ErrBlockInterruptedByTimeout), exampleEnv, StateNew exampleX) \<and>
   fillLoop exampleX (Some (\<lambda>k. 4)) 0 [Tx 1] exampleEnv (StateNew exampleX)
     = (Panicked ''undefined signal'', exampleEnv, StateNew exampleX)"
proof -
  have n: "(\<lambda>k::nat. 3::int32) 0 \<noteq> commitInterruptNone" "(\<lambda>k::nat. 4::int32) 0 \<noteq> commitInterruptNone"
    by (simp_all add: commitInterruptNone_def)
  from C8_interruption_aborts_with_its_error [OF refl n(1), where X = exampleX and tx = "Tx 1"
         and rest = "[]" and env = exampleEnv and ibs = "StateNew exampleX"]
       C8_interruption_aborts_with_its_error [OF refl n(2), where X = exampleX and tx = "Tx 1"
         and rest = "[]" and env = exampleEnv and ibs = "StateNew exampleX"]
  show ?thesis
    by (simp add: commitInterruptNewHead_def commitInterruptResubmit_def
        commitInterruptTimeout_def)
qed

text \<open>
  C3. A candidate whose attempt fails, with a recoverable error or any other, is
  skipped: the loop goes on with the next candidate, with the transactions, the
  receipts, the count and the gas pool as they were. Failures never make the
  loop return an error: when no interruption signal is read, it returns nil. In
  particular, when the pool supplies three transactions of which the first and
  the third are accepted and the second fails with nonce-too-low (and gas
  suffices), \<open>fillTransactions\<close> returns nil with exactly the first and the third
  transaction, in that order.
\<close>

theorem C3_failing_tx_is_skipped:
  "(interrupted interrupt k = None \<and> \<not> gasPool env < TxGas X \<and>
    attempt X tx env ibs = (Some err, env', ibs')
      \<longrightarrow> fillLoop X interrupt k (tx # rest) env ibs
            = fillLoop X interrupt (Suc k) rest env' ibs' \<and>
          txs env' = txs env \<and> receipts env' = receipts env \<and> tcount env' = tcount env \<and>
          gasPool env' = gasPool env)
   \<and> ((\<forall>j. interrupted interrupt j = None)
      \<longrightarrow> fst (fillLoop X interrupt k cands env ibs) = Returned None)
   \<and> ((\<forall>j. interrupted interrupt j = None) \<and> GetTransaction X = Inr [t1, t2, t3] \<and>
       \<not> gasPool env0 < TxGas X \<and>
       attempt X t1 (env0\<lparr>txs := []\<rparr>) ibs0 = (None, env1, ibs1) \<and>
       \<not> gasPool env1 < TxGas X \<and>
       attempt X t2 env1 ibs1 = (Some ErrNonceTooLow, env2, ibs2) \<and>
       attempt X t3 env2 ibs2 = (None, env3, ibs3)
      \<longrightarrow> fillTransactions X interrupt env0 ibs0 = (Returned None, env3, ibs3) \<and>
          txs env3 = [t1, t3])"
proof (intro conjI impI)
  assume h: "interrupted interrupt k = None \<and> \<not> gasPool env < TxGas X \<and>
    attempt X tx env ibs = (Some err, env', ibs')"
  then have h1: "interrupted interrupt k = None" and h2: "\<not> gasPool env < TxGas X"
    and h3: "attempt X tx env ibs = (Some err, env', ibs')" by simp_all
  note st = fillLoop_skip [OF h1 h2 h3, of rest]
  from st show "fillLoop X interrupt k (tx # rest) env ibs
            = fillLoop X interrupt (Suc k) rest env' ibs'" by simp
  from st show "txs env' = txs env" by simp
  from st show "receipts env' = receipts env" by simp
  from st show "tcount env' = tcount env" by simp
  from st show "gasPool env' = gasPool env" by simp
next
  assume "\<forall>j. interrupted interrupt j = None"
  then show "fst (fillLoop X interrupt k cands env ibs) = Returned None"
    by (simp add: fillLoop_silent)
next
  assume h: "(\<forall>j. interrupted interrupt j = None) \<and> GetTransaction X = Inr [t1, t2, t3] \<and>
       \<not> gasPool env0 < TxGas X \<and>
       attempt X t1 (env0\<lparr>txs := []\<rparr>) ibs0 = (None, env1, ibs1) \<and>
       \<not> gasPool env1 < TxGas X \<and>
       attempt X t2 env1 ibs1 = (Some ErrNonceTooLow, env2, ibs2) \<and>
       attempt X t3 env2 ibs2 = (None, env3, ibs3)"
  then have "\<forall>j. interrupted interrupt j = None" "GetTransaction X = Inr [t1, t2, t3]"
    "\<not> gasPool env0 < TxGas X"
    "attempt X t1 (env0\<lparr>txs := []\<rparr>) ibs0 = (None, env1, ibs1)"
    "\<not> gasPool env1 < TxGas X"
    "attempt X t2 env1 ibs1 = (Some ErrNonceTooLow, env2, ibs2)"
    "attempt X t3 env2 ibs2 = (None, env3, ibs3)" by blast+
  then have r: "fillTransactions X interrupt env0 ibs0 = (Returned None, env3, ibs3) \<and>
          txs env3 = [t1, t3]"
    by (rule scenario_three)
  from r show "fillTransactions X interrupt env0 ibs0 = (Returned None, env3, ibs3)" by simp
  from r show "txs env3 = [t1, t3]" by simp
qed

theorem C3_witness:
  "fillLoop exampleX None 1 [Tx 2, Tx 3] exampleEnv1 exampleState1
     = fillLoop exampleX None (Suc 1) [Tx 3] exampleEnv1 exampleState2 \<and>
   fst (fillLoop exampleX None 0 [Tx 1, Tx 2, Tx 3] exampleEnv (StateNew exampleX))
     = Returned None \<and>
   fillTransactions exampleX None exampleEnv (StateNew exampleX)
     = (Returned None, exampleEnv3, exampleState3) \<and>
   txs exampleEnv3 = [Tx 1, Tx 3]"
proof -
  have silent: "\<forall>j. interrupted None j = None" by (simp add: interrupted_def)
  have pool: "GetTransaction exampleX = Inr [Tx 1, Tx 2, Tx 3]" by (simp add: exampleX_def)
  have g0: "\<not> gasPool exampleEnv < TxGas exampleX"
    by (simp add: exampleEnv_eval exampleX_def)
  have g1: "\<not> gasPool exampleEnv1 < TxGas exampleX"
    by (simp add: exampleX_def exampleEnv1_def)
  note c3 = C3_failing_tx_is_skipped [where interrupt = None and X = exampleX
      and k = 1 and tx = "Tx 2" and rest = "[Tx 3]" and env = exampleEnv1
      and ibs = exampleState1 and err = ErrNonceTooLow and env' = exampleEnv1
      and ibs' = exampleState2]
  note one = c3 [THEN conjunct1, rule_format,
      OF conjI [OF silent [rule_format] conjI [OF g1 example_attempt_2]]]
  note two = C3_failing_tx_is_skipped [where interrupt = None and X = exampleX and k = 0
      and cands = "[Tx 1, Tx 2, Tx 3]" and env = exampleEnv and ibs = "StateNew exampleX",
      THEN conjunct2, THEN conjunct1, THEN mp, OF silent]
  note three = C3_failing_tx_is_skipped [where interrupt = None and X = exampleX
      and ?t1.0 = "Tx 1" and ?t2.0 = "Tx 2" and ?t3.0 = "Tx 3" and ?env0.0 = exampleEnv
      and ?ibs0.0 = "StateNew exampleX",
      THEN conjunct2, THEN conjunct2, rule_format,
      OF conjI [OF silent conjI [OF pool conjI [OF g0 conjI [OF example_attempt_1
        conjI [OF g1 conjI [OF example_attempt_2 example_attempt_3]]]]]]]
  from one two three show ?thesis by simp
qed

text \<open>
  C4. When the state-transition function debits each accepted receipt's gas from
  the pool and accepts no transaction that needs more than the pool holds, then
  for the context \<open>makeEnv\<close> builds, whose pool starts at the header's gas
  limit, the gas of the receipts \<open>fillTransactions\<close> leaves, summed as natural
  numbers, is at most the header's gas limit: the sum and the remaining pool add
  up to the limit exactly.
\<close>

theorem C4_gas_limit_bounds_assembly:
  assumes "debitsGas X"
    and "fillTransactions X interrupt (makeEnv c parent hdr cb) ibs = (out, env', ibs')"
  shows "receiptsGasUsed (receipts env') \<le> unat (GasLimit hdr) \<and>
         receiptsGasUsed (receipts env') + unat (gasPool env') = unat (GasLimit hdr) \<and>
         GasLimit (header env') = GasLimit hdr"
proof -
  let ?reset = "(makeEnv c parent hdr cb)\<lparr>txs := []\<rparr>"
  have init: "receipts ?reset = []" "gasPool ?reset = GasLimit hdr" "header ?reset = hdr"
    by (simp_all add: makeEnv_def Let_def AddGas_def newGasPool_def)
  show ?thesis
  proof (cases "GetTransaction X")
    case (Inl err)
    with assms(2) init show ?thesis
      by (auto simp: fillTransactions_def Let_def receiptsGasUsed_def)
  next
    case (Inr cands)
    with assms(2) have "fillLoop X interrupt 0 cands ?reset ibs = (out, env', ibs')"
      by (simp add: fillTransactions_def Let_def)
    from fillLoop_gas [OF assms(1) this] init show ?thesis
      by (simp add: receiptsGasUsed_def)
  qed
qed

theorem C4_witness:
  "debitsGas exampleX \<and>
   receiptsGasUsed (receipts (fst (snd (fillTransactions exampleX None exampleEnv
      (StateNew exampleX))))) \<le> unat (GasLimit (exampleHeader 1)) \<and>
   unat (GasLimit (exampleHeader 1)) = 100000"
proof -
  have p: "fillTransactions exampleX None
             (makeEnv (chain exampleWorker) (exampleHeader 0) (exampleHeader 1) 7)
             (StateNew exampleX)
           = (fst (fillTransactions exampleX None exampleEnv (StateNew exampleX)),
              fst (snd (fillTransactions exampleX None exampleEnv (StateNew exampleX))),
              snd (snd (fillTransactions exampleX None exampleEnv (StateNew exampleX))))"
    by (simp add: exampleEnv_def)
  from C4_gas_limit_bounds_assembly [OF debitsGas_exampleX p] debitsGas_exampleX
  show ?thesis by (simp add: exampleHeader_def)
qed






text \<open>
  C1, evaluated on the code. The pending table holds a task for block 101 and a
  task for block 90, and a new head with number 100 arrives. The claim has the
  task for block 90 removed (90 is at most 100 - 7) and the task for block 101
  retained; \<open>clearPending\<close> deletes the task for block 101 and keeps the task for
  block 90, since it deletes an entry when the head's number is at most the
  entry's number plus \<open>staleThreshold\<close>.
\<close>

theorem C1_purge_deletes_recent_keeps_stale:
  "pendingTasks examplePending 2101 = Some (exampleTask 101) \<and>
   pendingTasks examplePending 2090 = Some (exampleTask 90) \<and>
   pendingTasks (fst (onNewBlock examplePending exampleLoop
      (exampleBlock (exampleHeader 100) [] []) 0)) 2101 = None \<and>
   pendingTasks (fst (onNewBlock examplePending exampleLoop
      (exampleBlock (exampleHeader 100) [] []) 0)) 2090 = Some (exampleTask 90)"
  by (simp add: onNewBlock_def onNewHead_def workLoop_commit_def Let_def clearPending_def
      examplePending_def exampleWorker_def exampleLoop_def exampleBlock_def exampleHeader_def
      exampleTask_def staleThreshold_def)

text \<open>
  C9. A nil delivery leaves the worker as it is. A delivery of a block the chain
  already has, by hash and number, leaves the worker as it is too: nothing is
  stamped and \<open>WriteBlockWithState\<close> is not called. So when a sealed block whose
  task is pending is delivered and written, and then delivered again, the second
  delivery changes nothing and the chain store has seen exactly one write call.
\<close>

theorem C9_duplicate_delivery_writes_once:
  "resultLoop X w None = w \<and>
   (HasBlock (chain w) (blockHash blk) (ucast (Number (blockHeader blk)))
      \<longrightarrow> resultLoop X w (Some blk) = w) \<and>
   (\<not> HasBlock (chain w) (blockHash blk) (ucast (Number (blockHeader blk))) \<and>
    pendingTasks w (SealHash X (blockHeader blk)) = Some t \<and>
    WriteErr X (chain w) blk = None
      \<longrightarrow> writeCalls (chain (resultLoop X w (Some blk))) = writeCalls (chain w) @ [blk] \<and>
          resultLoop X (resultLoop X w (Some blk)) (Some blk) = resultLoop X w (Some blk) \<and>
          writeCalls (chain (resultLoop X (resultLoop X w (Some blk)) (Some blk)))
            = writeCalls (chain w) @ [blk])"
proof (intro conjI impI)
  show "resultLoop X w None = w" by (simp add: resultLoop_def)
next
  assume "HasBlock (chain w) (blockHash blk) (ucast (Number (blockHeader blk)))"
  then show "resultLoop X w (Some blk) = w" by (simp add: resultLoop_def)
next
  assume h: "\<not> HasBlock (chain w) (blockHash blk) (ucast (Number (blockHeader blk))) \<and>
    pendingTasks w (SealHash X (blockHeader blk)) = Some t \<and>
    WriteErr X (chain w) blk = None"
  then have c: "chain (resultLoop X w (Some blk))
           = (chain w)\<lparr>writeCalls := writeCalls (chain w) @ [blk],
                        stored := stored (chain w) @ [blk]\<rparr>"
    by (intro resultLoop_first_delivery) simp_all
  then show one: "writeCalls (chain (resultLoop X w (Some blk))) = writeCalls (chain w) @ [blk]"
    by simp
  from c have "HasBlock (chain (resultLoop X w (Some blk))) (blockHash blk)
     (ucast (Number (blockHeader blk)))"
    by (simp add: HasBlock_after_write)
  then show two: "resultLoop X (resultLoop X w (Some blk)) (Some blk) = resultLoop X w (Some blk)"
    by (simp add: resultLoop_def)
  from one two show "writeCalls (chain (resultLoop X (resultLoop X w (Some blk)) (Some blk)))
            = writeCalls (chain w) @ [blk]" by simp
qed

theorem C9_witness:
  "writeCalls (chain examplePending) = [] \<and>
   writeCalls (chain (resultLoop exampleX examplePending
      (Some (exampleBlock (exampleHeader 101) [] []))))
     = [exampleBlock (exampleHeader 101) [] []] \<and>
   writeCalls (chain (resultLoop exampleX
      (resultLoop exampleX examplePending (Some (exampleBlock (exampleHeader 101) [] [])))
      (Some (exampleBlock (exampleHeader 101) [] []))))
     = [exampleBlock (exampleHeader 101) [] []] \<and>
   resultLoop exampleX exampleWorker (Some (exampleBlock (exampleHeader 0) [] []))
     = exampleWorker"
proof -
  have a: "\<not> HasBlock (chain examplePending) (blockHash (exampleBlock (exampleHeader 101) [] []))
     (ucast (Number (blockHeader (exampleBlock (exampleHeader 101) [] []))))"
    by (simp add: HasBlock_def examplePending_def exampleWorker_def exampleBlock_def
        exampleHeader_def)
  have b: "pendingTasks examplePending
      (SealHash exampleX (blockHeader (exampleBlock (exampleHeader 101) [] [])))
     = Some (exampleTask 101)"
    by (simp add: examplePending_def exampleX_def exampleBlock_def exampleHeader_def)
  have c: "WriteErr exampleX (chain examplePending) (exampleBlock (exampleHeader 101) [] []) = None"
    by (simp add: exampleX_def)
  have d: "HasBlock (chain exampleWorker) (blockHash (exampleBlock (exampleHeader 0) [] []))
     (ucast (Number (blockHeader (exampleBlock (exampleHeader 0) [] []))))"
    by (simp add: HasBlock_def exampleWorker_def exampleBlock_def exampleHeader_def)
  have e: "writeCalls (chain examplePending) = []"
    by (simp add: examplePending_def exampleWorker_def)
  from C9_duplicate_delivery_writes_once [of exampleX examplePending
      "exampleBlock (exampleHeader 101) [] []" "exampleTask 101"] a b c e
    C9_duplicate_delivery_writes_once [of exampleX exampleWorker
      "exampleBlock (exampleHeader 0) [] []" "exampleTask 101"] d
  show ?thesis by simp
qed




text \<open>
  C10. When \<open>fillTransactions\<close> returns an error, of the pool or of an
  interruption, in a cycle of a running worker with a coinbase, \<open>commitWork\<close>
  goes on to \<open>commit\<close>: once the engine has finalized the partial context (and
  its transactions marshal, where that is asked for, and the context is not
  cancelled), it returns nil, the pending snapshot is the block of that context
  with its receipts, and the sealing task is sent on the task channel. Unless the
  error is the recommit interruption, the resubmit-adjust channel is as it was.
\<close>

theorem C10_fill_error_does_not_abort_the_cycle:
  assumes "isRunning w" and "w_coinbase w \<noteq> emptyAddress"
    and "prepareWork X w (workParams w ts) = Inr current" and "BeginRo X = None"
    and "fillTransactions X interrupt current (StateNew X) = (Returned (Some err), env, ibs)"
    and "FinalizeAndAssemble X (chain w) (header env) ibs (txs env) (receipts env) = Inr a"
    and "\<not> IsBeijing X (ucast (Number (asm_header a))) \<or> marshalAll X (txs env) = Inr bs"
    and "\<not> ctxDone w"
  shows "fst (commitWork X w interrupt ne ts) = Returned None \<and>
         snapshotBlock (snd (commitWork X w interrupt ne ts))
           = Some (NewBlockFromReceipt X (asm_header a) (txs env) (receipts env)
                     (asm_rewards a)) \<and>
         snapshotReceipts (snd (commitWork X w interrupt ne ts)) = receipts env \<and>
         taskCh (snd (commitWork X w interrupt ne ts))
           = taskCh w @ [\<lparr>task_receipts = receipts env, task_state = asm_state a,
                            task_block = asm_block a, createdAt = Now X,
                            nopay = asm_unpay a\<rparr>] \<and>
         (err \<noteq> ErrBlockInterruptedByRecommit
            \<longrightarrow> resubmitAdjustCh (snd (commitWork X w interrupt ne ts)) = resubmitAdjustCh w)"
proof -
  let ?w = "feedback w (Some err) env"
  from assms(1,2) have nr: "\<not> (isRunning w \<and> w_coinbase w = emptyAddress)" by simp
  have cw: "commitWork X w interrupt ne ts = commit X ?w env ibs"
    by (rule commitWork_filled [OF nr assms(3) assms(4) assms(5)])
  have same: "isRunning ?w" "chain ?w = chain w" "\<not> ctxDone ?w" "taskCh ?w = taskCh w"
    using assms(1,8) by (simp_all add: feedback_def isRunning_def Let_def)
  have cp: "header (copy env) = header env" "txs (copy env) = txs env"
    "receipts (copy env) = receipts env" "coinbase (copy env) = coinbase env"
    by (simp_all add: copy_def)
  have fa: "FinalizeAndAssemble X (chain ?w) (header (copy env)) ibs (txs (copy env))
              (receipts (copy env)) = Inr a"
    using assms(6) same(2) cp by simp
  have body: "fst (commit X ?w env ibs) = Returned None \<and>
         snapshotBlock (snd (commit X ?w env ibs))
           = Some (NewBlockFromReceipt X (asm_header a) (txs env) (receipts env)
                     (asm_rewards a)) \<and>
         snapshotReceipts (snd (commit X ?w env ibs)) = receipts env \<and>
         taskCh (snd (commit X ?w env ibs))
           = taskCh w @ [\<lparr>task_receipts = receipts env, task_state = asm_state a,
                            task_block = asm_block a, createdAt = Now X,
                            nopay = asm_unpay a\<rparr>]"
  proof (cases "IsBeijing X (ucast (Number (asm_header a)))")
    case True
    with assms(7) have m: "marshalAll X (txs env) = Inr bs" by simp
    show ?thesis
      using same fa True m cp
      by (simp add: commit_def Let_def updateSnapshot_def copyReceipts_def)
  next
    case False
    show ?thesis
      using same fa False cp
      by (simp add: commit_def Let_def updateSnapshot_def copyReceipts_def)
  qed
  have fb: "err \<noteq> ErrBlockInterruptedByRecommit
            \<longrightarrow> resubmitAdjustCh (snd (commit X ?w env ibs)) = resubmitAdjustCh w"
    by (simp add: commit_keeps_feedback feedback_channel)
  from body fb show ?thesis unfolding cw by simp
qed

theorem C10_witness:
  "fst (commitWork exampleX exampleWorker newHeadArrived False 0) = Returned None \<and>
   snapshotBlock (snd (commitWork exampleX exampleWorker newHeadArrived False 0))
     = Some (exampleBlock (exampleHeader 1) [] []) \<and>
   taskCh (snd (commitWork exampleX exampleWorker newHeadArrived False 0))
     = [\<lparr>task_receipts = [], task_state = StateNew exampleX,
         task_block = exampleBlock (exampleHeader 1) [] [], createdAt = 0, nopay = []\<rparr>] \<and>
   resubmitAdjustCh (snd (commitWork exampleX exampleWorker newHeadArrived False 0)) = [] \<and>
   fst (commitWork poolFails exampleWorker None False 0) = Returned None \<and>
   taskCh (snd (commitWork poolFails exampleWorker None False 0))
     = [\<lparr>task_receipts = [], task_state = StateNew exampleX,
         task_block = exampleBlock (exampleHeader 1) [] [], createdAt = 0, nopay = []\<rparr>] \<and>
   resubmitAdjustCh (snd (commitWork poolFails exampleWorker None False 0)) = []"
proof -
  let ?a = "\<lparr>asm_block = exampleBlock (exampleHeader 1) [] [], asm_rewards = [],
             asm_unpay = [], asm_header = exampleHeader 1,
             asm_state = StateNew exampleX\<rparr>"
  have run: "isRunning exampleWorker" "w_coinbase exampleWorker \<noteq> emptyAddress"
    "\<not> ctxDone exampleWorker"
    by (simp_all add: isRunning_def exampleWorker_def emptyAddress_def)
  have b: "BeginRo exampleX = None" "BeginRo poolFails = None"
    by (simp_all add: exampleX_def poolFails_def)
  have fin: "FinalizeAndAssemble exampleX (chain exampleWorker) (header exampleEnv)
      (StateNew exampleX) (txs exampleEnv) (receipts exampleEnv) = Inr ?a"
    by (simp add: exampleX_def exampleEnv_eval)
  have fin': "FinalizeAndAssemble poolFails (chain exampleWorker) (header exampleEnv)
      (StateNew poolFails) (txs exampleEnv) (receipts exampleEnv) = Inr ?a"
    by (simp add: exampleX_def poolFails_def exampleEnv_eval)
  have nb: "\<not> IsBeijing exampleX (ucast (Number (asm_header ?a))) \<or>
      marshalAll exampleX (txs exampleEnv) = Inr []"
    "\<not> IsBeijing poolFails (ucast (Number (asm_header ?a))) \<or>
      marshalAll poolFails (txs exampleEnv) = Inr []"
    by (simp_all add: exampleX_def poolFails_def)
  have p': "prepareWork poolFails exampleWorker (workParams exampleWorker 0) = Inr exampleEnv"
    by (simp add: prepareWork_def workParams_def poolFails_def exampleX_def exampleWorker_def
        exampleEnv_def exampleBlock_def exampleHeader_def emptyHash_def Let_def)
  have f': "fillTransactions poolFails None exampleEnv (StateNew poolFails)
      = (Returned (Some (ErrOther 1)), exampleEnv, StateNew poolFails)"
    by (simp add: fillTransactions_def poolFails_def exampleEnv_eval)
  have vals: "NewBlockFromReceipt exampleX (exampleHeader 1) (txs exampleEnv)
        (receipts exampleEnv) [] = exampleBlock (exampleHeader 1) [] []"
    "NewBlockFromReceipt poolFails (exampleHeader 1) (txs exampleEnv)
        (receipts exampleEnv) [] = exampleBlock (exampleHeader 1) [] []"
    "Now exampleX = 0" "Now poolFails = 0" "StateNew poolFails = StateNew exampleX"
    "receipts exampleEnv = []" "taskCh exampleWorker = []"
    "resubmitAdjustCh exampleWorker = []"
    by (simp_all add: exampleX_def poolFails_def exampleEnv_eval exampleWorker_def)
  from C10_fill_error_does_not_abort_the_cycle [OF run(1,2) example_prepareWork b(1)
      example_fill_new_head fin nb(1) run(3), of False]
    C10_fill_error_does_not_abort_the_cycle [OF run(1,2) p' b(2) f' fin' nb(2) run(3), of False]
    vals
  show ?thesis by simp
qed

end
